theory Spec2Isabelle
  imports Main "HOL-Library.Sublist"
begin

section \<open>Python text\<close>

text \<open>
  The tools of \<^verbatim>\<open>src/main.py\<close> only format text. A Python \<^verbatim>\<open>str\<close> is a sequence of
  Unicode code points: \<open>pystr\<close> is a list of code points, and \<open>lit\<close> turns an ASCII
  literal of the program into one. Field names, and the ASCII texts the program builds
  from numbers (digits, the text of a float, the ISO form of a time), are written as
  \<^typ>\<open>string\<close> and enter a \<open>pystr\<close> through \<open>lit\<close>. Python's unbounded \<^verbatim>\<open>int\<close> is
  \<^typ>\<open>int\<close>, and an \<^verbatim>\<open>Optional[str]\<close> argument is a \<open>pystr option\<close>.
\<close>

type_synonym pystr = "nat list"

definition lit :: "string \<Rightarrow> pystr" where
  "lit s = map of_char s"

definition is_ascii :: "pystr \<Rightarrow> bool" where
  "is_ascii s = list_all (\<lambda>c. c < 128) s"

subsection \<open>What the interpreter and its library supply\<close>

text \<open>
  The tools call the library on text and numbers they do not look into. What the library
  does there is a parameter of every tool:
  \<^item> \<open>hash\<close>: the built-in \<^verbatim>\<open>hash\<close> of a string, fixed within one run of the interpreter;
  \<^item> \<open>float_str\<close>: the text of a float (\<^verbatim>\<open>float.__repr__\<close>), for the type \<open>'f\<close> of floats;
    the tools never compute with the amount, they only print it;
  \<^item> \<open>unicode_upper\<close> and \<open>unicode_capitalize\<close>: \<^verbatim>\<open>str.upper\<close> and \<^verbatim>\<open>str.capitalize\<close> on a
    string that holds a character beyond ASCII, where Python follows the Unicode case
    tables (one character may become several);
  \<^item> \<open>printable\<close>: whether \<^verbatim>\<open>repr\<close> shows a code point beyond ASCII as it is.
\<close>

record 'f runtime =
  hash :: "pystr \<Rightarrow> int"
  float_str :: "'f \<Rightarrow> string"
  unicode_upper :: "pystr \<Rightarrow> pystr"
  unicode_capitalize :: "pystr \<Rightarrow> pystr"
  printable :: "nat \<Rightarrow> bool"

subsection \<open>Case conversion, slices and joins\<close>

definition ascii_upper :: "nat \<Rightarrow> nat" where
  "ascii_upper c = (if 97 \<le> c \<and> c \<le> 122 then c - 32 else c)"

definition ascii_lower :: "nat \<Rightarrow> nat" where
  "ascii_lower c = (if 65 \<le> c \<and> c \<le> 90 then c + 32 else c)"

text \<open>\<^verbatim>\<open>s.upper()\<close>: on ASCII text the letters \<^verbatim>\<open>a\<close> to \<^verbatim>\<open>z\<close> become \<^verbatim>\<open>A\<close> to \<^verbatim>\<open>Z\<close>.\<close>

definition upper :: "'f runtime \<Rightarrow> pystr \<Rightarrow> pystr" where
  "upper rt s = (if is_ascii s then map ascii_upper s else unicode_upper rt s)"

text \<open>
  \<^verbatim>\<open>s.capitalize()\<close>: on ASCII text the first character in upper case, the rest in lower
  case.
\<close>

definition capitalize :: "'f runtime \<Rightarrow> pystr \<Rightarrow> pystr" where
  "capitalize rt s =
     (if is_ascii s
      then (case s of [] \<Rightarrow> [] | c # cs \<Rightarrow> ascii_upper c # map ascii_lower cs)
      else unicode_capitalize rt s)"

text \<open>\<^verbatim>\<open>s[-n:]\<close> for a positive \<open>n\<close>: the last \<open>n\<close> characters, all of \<open>s\<close> when it is shorter.\<close>

definition last_chars :: "nat \<Rightarrow> pystr \<Rightarrow> pystr" where
  "last_chars n s = drop (length s - n) s"

text \<open>\<^verbatim>\<open>s.replace(c, '')\<close> for a single character \<open>c\<close>.\<close>

definition remove_char :: "nat \<Rightarrow> pystr \<Rightarrow> pystr" where
  "remove_char c s = filter (\<lambda>x. x \<noteq> c) s"

text \<open>Truthiness of an \<^verbatim>\<open>Optional[str]\<close>: \<^verbatim>\<open>None\<close> and the empty string are false.\<close>

fun truthy :: "pystr option \<Rightarrow> bool" where
  "truthy None = False"
| "truthy (Some s) = (s \<noteq> [])"

text \<open>\<^verbatim>\<open>x or d\<close> for an \<^verbatim>\<open>Optional[str]\<close> \<open>x\<close> and a string \<open>d\<close>.\<close>

fun or_default :: "pystr option \<Rightarrow> pystr \<Rightarrow> pystr" where
  "or_default None d = d"
| "or_default (Some s) d = (if s \<noteq> [] then s else d)"

text \<open>An \<^verbatim>\<open>Optional[str]\<close> inside an f-string.\<close>

fun fstr_opt :: "pystr option \<Rightarrow> pystr" where
  "fstr_opt None = lit ''None''"
| "fstr_opt (Some s) = s"

text \<open>\<^verbatim>\<open>sep.join(xs)\<close>\<close>

fun join :: "pystr \<Rightarrow> pystr list \<Rightarrow> pystr" where
  "join sep [] = []"
| "join sep [x] = x"
| "join sep (x # y # ys) = x @ sep @ join sep (y # ys)"

subsection \<open>Integers as text\<close>

definition digit_char :: "nat \<Rightarrow> char" where
  "digit_char d = ''0123456789'' ! d"

fun str_nat :: "nat \<Rightarrow> string" where
  "str_nat n = (if n < 10 then [digit_char n] else str_nat (n div 10) @ [digit_char (n mod 10)])"

declare str_nat.simps [simp del]

text \<open>The decimal text of an integer.\<close>

definition int_text :: "int \<Rightarrow> string" where
  "int_text n = (if n < 0 then CHR ''-'' # str_nat (nat (- n)) else str_nat (nat n))"

text \<open>
  \<^verbatim>\<open>str(n)\<close>, which is also what \<^verbatim>\<open>f"{n}"\<close> inserts for an integer. By default CPython
  refuses to convert an integer of more than 4300 decimal digits (the sign not counted)
  and raises \<^verbatim>\<open>ValueError\<close>.
\<close>

datatype py_error = ValueError

definition int_max_str_digits :: nat where
  "int_max_str_digits = 4300"

definition too_many_digits :: "int \<Rightarrow> bool" where
  "too_many_digits n = (10 ^ int_max_str_digits \<le> \<bar>n\<bar>)"

definition str_int :: "int \<Rightarrow> py_error + string" where
  "str_int n = (if too_many_digits n then Inl ValueError else Inr (int_text n))"

text \<open>
  The format specification \<^verbatim>\<open>0wd\<close> (as in \<^verbatim>\<open>f"{n:03d}"\<close>): the decimal digits padded with
  zeros, after the sign, to at least \<open>w\<close> characters. The tools format only values
  between 0 and 9999 this way, so the limit on the digits plays no part here.
\<close>

definition zero_pad :: "nat \<Rightarrow> string \<Rightarrow> string" where
  "zero_pad w s = replicate (w - length s) CHR ''0'' @ s"

definition format_0d :: "nat \<Rightarrow> int \<Rightarrow> string" where
  "format_0d w n =
     (if n < 0 then CHR ''-'' # zero_pad (w - 1) (str_nat (nat (- n)))
      else zero_pad w (str_nat (nat n)))"

definition is_digit :: "char \<Rightarrow> bool" where
  "is_digit c = (c \<in> set ''0123456789'')"

subsection \<open>The text of a list of strings\<close>

text \<open>
  \<^verbatim>\<open>repr(s)\<close> of a string: single quotes, unless the string holds a single quote and no
  double quote; the quote and the backslash escaped; tab, newline and carriage return by
  their letters; any other control character, and any character beyond ASCII that is not
  printable, by its code in hexadecimal (\<^verbatim>\<open>\xNN\<close>, \<^verbatim>\<open>\uNNNN\<close> or \<^verbatim>\<open>\UNNNNNNNN\<close>).
\<close>

definition repr_quote :: "pystr \<Rightarrow> nat" where
  "repr_quote s = (if 0x27 \<in> set s \<and> 0x22 \<notin> set s then 0x22 else 0x27)"

definition hex_char :: "nat \<Rightarrow> char" where
  "hex_char d = ''0123456789abcdef'' ! d"

definition hex_text :: "nat \<Rightarrow> nat \<Rightarrow> string" where
  "hex_text w n = map (\<lambda>i. hex_char (n div 16 ^ i mod 16)) (rev [0..<w])"

definition repr_char :: "'f runtime \<Rightarrow> nat \<Rightarrow> nat \<Rightarrow> pystr" where
  "repr_char rt q c =
     (if c = q \<or> c = 0x5C then [0x5C, c]
      else if c = 0x09 then 0x5C # lit ''t''
      else if c = 0x0A then 0x5C # lit ''n''
      else if c = 0x0D then 0x5C # lit ''r''
      else if c < 0x20 \<or> c = 0x7F then 0x5C # lit (CHR ''x'' # hex_text 2 c)
      else if c < 0x7F then [c]
      else if printable rt c then [c]
      else if c \<le> 0xFF then 0x5C # lit (CHR ''x'' # hex_text 2 c)
      else if c \<le> 0xFFFF then 0x5C # lit (CHR ''u'' # hex_text 4 c)
      else 0x5C # lit (CHR ''U'' # hex_text 8 c))"

definition repr_str :: "'f runtime \<Rightarrow> pystr \<Rightarrow> pystr" where
  "repr_str rt s = (let q = repr_quote s in q # concat (map (repr_char rt q) s) @ [q])"

text \<open>\<^verbatim>\<open>str(xs)\<close> of a list of strings.\<close>

definition str_list :: "'f runtime \<Rightarrow> pystr list \<Rightarrow> pystr" where
  "str_list rt xs = lit ''['' @ join (lit '', '') (map (repr_str rt) xs) @ lit '']''"

section \<open>Results and the log\<close>

text \<open>
  A tool returns a dictionary from field names to values; it is an association list in
  the order the source writes the fields. The values are strings, \<^verbatim>\<open>None\<close>, a float or
  a list of strings.
\<close>

datatype 'f pyval = PyNone | PyStr pystr | PyFloat 'f | PyStrList "pystr list"

type_synonym 'f pydict = "(string \<times> 'f pyval) list"

fun opt_val :: "pystr option \<Rightarrow> 'f pyval" where
  "opt_val None = PyNone"
| "opt_val (Some s) = PyStr s"

text \<open>The string stored under a key, if there is one.\<close>

definition str_field :: "'f pydict \<Rightarrow> string \<Rightarrow> pystr option" where
  "str_field r k = (case map_of r k of Some (PyStr s) \<Rightarrow> Some s | _ \<Rightarrow> None)"

text \<open>
  The only effect of a tool is \<^verbatim>\<open>logger.info(...)\<close>: the state is the list of the lines
  logged so far, and a tool that returns gives it back with its line added. A tool that
  raises does so before it logs.
\<close>

type_synonym log = "pystr list"

section \<open>The tools of the Saudia agent\<close>

text \<open>
  The three booking tools print an integer argument into their summary, so they raise
  \<^verbatim>\<open>ValueError\<close> when it has too many digits; nothing else in a tool can fail on arguments
  of the declared types.
\<close>

definition book_flight ::
  "'f runtime \<Rightarrow> pystr \<Rightarrow> pystr \<Rightarrow> pystr \<Rightarrow> pystr option \<Rightarrow> int \<Rightarrow> pystr option \<Rightarrow> log
    \<Rightarrow> py_error + 'f pydict \<times> log" where
  "book_flight rt origin destination departure_date return_date passenger_count class_type lg =
     (let class_type = or_default class_type (lit ''economy'');
          flight_id = lit ''FL-'' @ upper rt (take 3 origin) @ upper rt (take 3 destination)
                      @ lit ''123''
      in case str_int passenger_count of
           Inl e \<Rightarrow> Inl e
         | Inr count \<Rightarrow>
             (let summary = lit ''Flight booked from '' @ origin @ lit '' to '' @ destination
                            @ lit '' on '' @ departure_date @ lit '' for '' @ lit count
                            @ lit '' passenger(s) in '' @ class_type @ lit '' class. '';
                  summary = (if truthy return_date
                             then summary @ lit ''Return flight on '' @ fstr_opt return_date
                                  @ lit ''. ''
                             else summary);
                  summary = summary @ lit ''Booking ID is '' @ flight_id @ lit ''.''
              in Inr ([(''flight_id'', PyStr flight_id),
                       (''status'', PyStr (lit ''confirmed'')),
                       (''summary'', PyStr summary)],
                      lg @ [summary])))"

definition book_hotel ::
  "'f runtime \<Rightarrow> pystr \<Rightarrow> pystr \<Rightarrow> pystr \<Rightarrow> int \<Rightarrow> pystr option \<Rightarrow> log
    \<Rightarrow> py_error + 'f pydict \<times> log" where
  "book_hotel rt city check_in_date check_out_date guests hotel_type lg =
     (let hotel_type = or_default hotel_type (lit ''3-star'');
          hotel_id = lit ''HT-'' @ upper rt (take 3 city) @ lit ''567''
      in case str_int guests of
           Inl e \<Rightarrow> Inl e
         | Inr count \<Rightarrow>
             (let summary = capitalize rt hotel_type @ lit '' hotel booked in '' @ city
                            @ lit '' from '' @ check_in_date @ lit '' to '' @ check_out_date
                            @ lit '' for '' @ lit count
                            @ lit '' guest(s). Booking ID is '' @ hotel_id @ lit ''.''
              in Inr ([(''hotel_id'', PyStr hotel_id),
                       (''status'', PyStr (lit ''confirmed'')),
                       (''summary'', PyStr summary)],
                      lg @ [summary])))"

definition book_cab ::
  "'f runtime \<Rightarrow> pystr \<Rightarrow> pystr \<Rightarrow> pystr \<Rightarrow> pystr \<Rightarrow> int \<Rightarrow> pystr option \<Rightarrow> log
    \<Rightarrow> py_error + 'f pydict \<times> log" where
  "book_cab rt city pickup_location dropoff_location pickup_time passengers cab_type lg =
     (let cab_type = or_default cab_type (lit ''standard'');
          cab_id = lit ''CB-'' @ upper rt (take 3 city)
                   @ remove_char (of_char CHR '':'') (last_chars 4 pickup_time)
      in case str_int passengers of
           Inl e \<Rightarrow> Inl e
         | Inr count \<Rightarrow>
             (let summary = capitalize rt cab_type @ lit '' cab booked in '' @ city
                            @ lit '' from '' @ pickup_location @ lit '' to '' @ dropoff_location
                            @ lit '' at '' @ pickup_time @ lit '' for '' @ lit count
                            @ lit '' passenger(s). Booking ID is '' @ cab_id @ lit ''.''
              in Inr ([(''cab_id'', PyStr cab_id),
                       (''status'', PyStr (lit ''confirmed'')),
                       (''summary'', PyStr summary)],
                      lg @ [summary])))"

definition select_meal ::
  "'f runtime \<Rightarrow> pystr \<Rightarrow> pystr \<Rightarrow> pystr option \<Rightarrow> pystr option \<Rightarrow> pystr option \<Rightarrow> log
    \<Rightarrow> 'f pydict \<times> log" where
  "select_meal rt flight_id meal_type dietary_restrictions special_requests passenger_name lg =
     (let meal_pref_id = lit ''MP-'' @ last_chars 3 flight_id
                         @ lit (format_0d 3 (hash rt meal_type mod 1000));
          meal_summary = meal_type @ lit '' meal'';
          meal_summary = (if truthy dietary_restrictions
                          then meal_summary @ lit '' ('' @ fstr_opt dietary_restrictions
                               @ lit '')''
                          else meal_summary);
          passenger_info = [];
          passenger_info = (if truthy passenger_name
                            then lit '' for '' @ fstr_opt passenger_name
                            else passenger_info);
          summary = lit ''Meal preference set to '' @ meal_summary @ lit '' for flight ''
                    @ flight_id @ passenger_info @ lit ''. Preference ID: '' @ meal_pref_id
                    @ lit ''.'';
          summary = (if truthy special_requests
                     then summary @ lit '' Special request noted: '' @ fstr_opt special_requests
                          @ lit ''.''
                     else summary)
      in ([(''meal_preference_id'', PyStr meal_pref_id),
           (''flight_id'', PyStr flight_id),
           (''meal_type'', PyStr meal_type),
           (''dietary_restrictions'', opt_val dietary_restrictions),
           (''special_requests'', opt_val special_requests),
           (''status'', PyStr (lit ''confirmed'')),
           (''summary'', PyStr summary)],
          lg @ [summary]))"

definition process_payment ::
  "'f runtime \<Rightarrow> pystr list \<Rightarrow> pystr \<Rightarrow> 'f \<Rightarrow> pystr \<Rightarrow> pystr option \<Rightarrow> pystr option \<Rightarrow> log
    \<Rightarrow> 'f pydict \<times> log" where
  "process_payment rt booking_ids payment_method amount currency customer_name email lg =
     (let payment_id = lit ''PY-'' @ lit (format_0d 4 (hash rt (str_list rt booking_ids) mod 10000));
          booking_ids_str = join (lit '', '') booking_ids;
          summary = lit ''Payment of '' @ lit (float_str rt amount) @ lit '' '' @ currency
                    @ lit '' processed successfully via '' @ payment_method
                    @ lit '' for booking(s): '' @ booking_ids_str
                    @ lit ''. Payment ID: '' @ payment_id @ lit ''.'';
          summary = (if truthy customer_name
                     then (let customer_info = lit '' for '' @ fstr_opt customer_name;
                               customer_info = (if truthy email
                                                then customer_info @ lit '' ('' @ fstr_opt email
                                                     @ lit '')''
                                                else customer_info)
                           in summary @ customer_info)
                     else summary)
      in ([(''payment_id'', PyStr payment_id),
           (''status'', PyStr (lit ''confirmed'')),
           (''amount'', PyFloat amount),
           (''currency'', PyStr currency),
           (''booking_ids'', PyStrList booking_ids),
           (''summary'', PyStr summary)],
          lg @ [summary]))"

text \<open>The defaults of the optional style parameters, as the signatures declare them.\<close>

definition class_type_default :: "pystr option" where
  "class_type_default = Some (lit ''economy'')"

definition hotel_type_default :: "pystr option" where
  "hotel_type_default = Some (lit ''3-star'')"

definition cab_type_default :: "pystr option" where
  "cab_type_default = Some (lit ''standard'')"

definition passenger_count_default :: int where
  "passenger_count_default = 1"

subsection \<open>A call of any of the five tools\<close>

text \<open>
  The framework calls a tool by its name with the arguments the language model chose.
  A call is a value of \<open>tool_call\<close>, and \<open>invoke\<close> runs the tool it names.
\<close>

datatype 'f tool_call =
    BookFlight pystr pystr pystr "pystr option" int "pystr option"
  | BookHotel pystr pystr pystr int "pystr option"
  | BookCab pystr pystr pystr pystr int "pystr option"
  | SelectMeal pystr pystr "pystr option" "pystr option" "pystr option"
  | ProcessPayment "pystr list" pystr 'f pystr "pystr option" "pystr option"

fun invoke :: "'f runtime \<Rightarrow> 'f tool_call \<Rightarrow> log \<Rightarrow> py_error + 'f pydict \<times> log" where
  "invoke rt (BookFlight a b c d e f) lg = book_flight rt a b c d e f lg"
| "invoke rt (BookHotel a b c d e) lg = book_hotel rt a b c d e lg"
| "invoke rt (BookCab a b c d e f) lg = book_cab rt a b c d e f lg"
| "invoke rt (SelectMeal a b c d e) lg = Inr (select_meal rt a b c d e lg)"
| "invoke rt (ProcessPayment a b c d e f) lg = Inr (process_payment rt a b c d e f lg)"

text \<open>The record a call returned, if it returned.\<close>

fun returned :: "py_error + 'f pydict \<times> log \<Rightarrow> 'f pydict option" where
  "returned (Inl e) = None"
| "returned (Inr (r, lg)) = Some r"

text \<open>The key under which each tool returns the identifier it generated, and its prefix.\<close>

fun id_key :: "'f tool_call \<Rightarrow> string" where
  "id_key (BookFlight _ _ _ _ _ _) = ''flight_id''"
| "id_key (BookHotel _ _ _ _ _) = ''hotel_id''"
| "id_key (BookCab _ _ _ _ _ _) = ''cab_id''"
| "id_key (SelectMeal _ _ _ _ _) = ''meal_preference_id''"
| "id_key (ProcessPayment _ _ _ _ _ _) = ''payment_id''"

fun id_prefix :: "'f tool_call \<Rightarrow> pystr" where
  "id_prefix (BookFlight _ _ _ _ _ _) = lit ''FL-''"
| "id_prefix (BookHotel _ _ _ _ _) = lit ''HT-''"
| "id_prefix (BookCab _ _ _ _ _ _) = lit ''CB-''"
| "id_prefix (SelectMeal _ _ _ _ _) = lit ''MP-''"
| "id_prefix (ProcessPayment _ _ _ _ _ _) = lit ''PY-''"

text \<open>The identifier a call returned, if it returned.\<close>

definition returned_id :: "'f tool_call \<Rightarrow> py_error + 'f pydict \<times> log \<Rightarrow> pystr option" where
  "returned_id c out = (case returned out of None \<Rightarrow> None | Some r \<Rightarrow> str_field r (id_key c))"

text \<open>
  Whether the integer argument of a call (the number of passengers or guests) has more
  digits than the interpreter converts; the meal and payment tools take no integer.
\<close>

fun digit_limit_exceeded :: "'f tool_call \<Rightarrow> bool" where
  "digit_limit_exceeded (BookFlight _ _ _ _ n _) = too_many_digits n"
| "digit_limit_exceeded (BookHotel _ _ _ n _) = too_many_digits n"
| "digit_limit_exceeded (BookCab _ _ _ _ n _) = too_many_digits n"
| "digit_limit_exceeded (SelectMeal _ _ _ _ _) = False"
| "digit_limit_exceeded (ProcessPayment _ _ _ _ _ _) = False"

section \<open>The time tool\<close>

text \<open>
  \<^verbatim>\<open>datetime.utcnow()\<close> reads the clock; the reading is an argument of the model.
  \<^verbatim>\<open>isoformat()\<close> writes it as \<^verbatim>\<open>YYYY-MM-DDTHH:MM:SS\<close>, followed by
  \<^verbatim>\<open>.ffffff\<close> when the microseconds are not zero.
\<close>

record datetime =
  year :: nat
  month :: nat
  day :: nat
  hour :: nat
  minute :: nat
  second :: nat
  microsecond :: nat

definition isoformat :: "datetime \<Rightarrow> string" where
  "isoformat t =
     format_0d 4 (int (year t)) @ ''-'' @ format_0d 2 (int (month t)) @ ''-''
     @ format_0d 2 (int (day t)) @ ''T'' @ format_0d 2 (int (hour t)) @ '':''
     @ format_0d 2 (int (minute t)) @ '':'' @ format_0d 2 (int (second t))
     @ (if microsecond t \<noteq> 0 then ''.'' @ format_0d 6 (int (microsecond t)) else [])"

definition current_time :: "datetime \<Rightarrow> log \<Rightarrow> string \<times> log" where
  "current_time now lg =
     (isoformat now, lg @ [lit (''Current UTC time is '' @ isoformat now)])"

section \<open>Calling a tool twice, and a sample runtime\<close>


text \<open>
  An instance of the runtime, to run the tools on concrete ASCII arguments. A float
  whose value is a whole number \<open>n\<close> below \<open>10\<^sup>1\<^sup>6\<close> in magnitude prints as the digits of
  \<open>n\<close> followed by \<^verbatim>\<open>.0\<close> (\<^verbatim>\<open>100.0\<close>), so such floats are given by \<open>n\<close>. The sample hash
  is the length of the string; any function from strings to integers would do. The
  Unicode parameters are not consulted on ASCII text.
\<close>

definition whole_float_str :: "int \<Rightarrow> string" where
  "whole_float_str n = int_text n @ ''.0''"

definition length_hash :: "pystr \<Rightarrow> int" where
  "length_hash s = int (length s)"

definition sample_runtime :: "int runtime" where
  "sample_runtime =
     \<lparr>hash = length_hash, float_str = whole_float_str, unicode_upper = (\<lambda>s. s),
      unicode_capitalize = (\<lambda>s. s), printable = (\<lambda>c. True)\<rparr>"

section \<open>Notions the properties are stated with\<close>

text \<open>
  The fields of a result besides the generated identifier, the status and the summary:
  the input fields the tool echoes.
\<close>

definition echoed_fields :: "'f tool_call \<Rightarrow> 'f pydict \<Rightarrow> 'f pydict" where
  "echoed_fields c r = filter (\<lambda>kv. fst kv \<notin> set [id_key c, ''status'', ''summary'']) r"

text \<open>
  Two shapes for the part of an identifier after its prefix. A text made of upper-cased
  input text holds only characters of the upper-cased arguments; a padded hash value is
  three or four decimal digits.
\<close>

definition made_of_upper_text :: "'f runtime \<Rightarrow> pystr list \<Rightarrow> pystr \<Rightarrow> bool" where
  "made_of_upper_text rt texts body = list_all (\<lambda>c. c \<in> set (upper rt (concat texts))) body"

definition padded_number :: "pystr \<Rightarrow> bool" where
  "padded_number body =
     ((length body = 3 \<or> length body = 4) \<and> list_all (\<lambda>c. c \<in> set (lit ''0123456789'')) body)"

text \<open>
  The ranges of the fields of a Python \<^verbatim>\<open>datetime\<close>, which every clock reading meets.
\<close>

definition valid_datetime :: "datetime \<Rightarrow> bool" where
  "valid_datetime t =
     (1 \<le> year t \<and> year t \<le> 9999 \<and> 1 \<le> month t \<and> month t \<le> 12 \<and> 1 \<le> day t \<and> day t \<le> 31
      \<and> hour t < 24 \<and> minute t < 60 \<and> second t < 60 \<and> microsecond t < 1000000)"

text \<open>
  The ISO 8601 layout of a date and time: a text matches a pattern when it has a digit
  wherever the pattern has \<^verbatim>\<open>D\<close> and the pattern's own character elsewhere.
\<close>

fun matches :: "string \<Rightarrow> string \<Rightarrow> bool" where
  "matches [] [] = True"
| "matches (p # ps) (c # cs) = ((if p = CHR ''D'' then is_digit c else c = p) \<and> matches ps cs)"
| "matches _ _ = False"

definition iso8601_text :: "string \<Rightarrow> bool" where
  "iso8601_text s =
     (matches ''DDDD-DD-DDTDD:DD:DD'' s \<or> matches ''DDDD-DD-DDTDD:DD:DD.DDDDDD'' s)"

text \<open>Reading such a text back into its fields.\<close>

definition digit_val :: "char \<Rightarrow> nat" where
  "digit_val c = of_char c - 48"

definition nat_of_digits :: "string \<Rightarrow> nat" where
  "nat_of_digits s = foldl (\<lambda>a c. 10 * a + digit_val c) 0 s"

definition fromisoformat :: "string \<Rightarrow> datetime" where
  "fromisoformat s =
     \<lparr>year = nat_of_digits (take 4 s),
      month = nat_of_digits (take 2 (drop 5 s)),
      day = nat_of_digits (take 2 (drop 8 s)),
      hour = nat_of_digits (take 2 (drop 11 s)),
      minute = nat_of_digits (take 2 (drop 14 s)),
      second = nat_of_digits (take 2 (drop 17 s)),
      microsecond = nat_of_digits (drop 20 s)\<rparr>"

definition sample_time :: datetime where
  "sample_time = \<lparr>year = 2025, month = 6, day = 1, hour = 9, minute = 30, second = 0,
                   microsecond = 250000\<rparr>"

section \<open>Facts about the text primitives\<close>

lemmas tool_defs =
  book_flight_def book_hotel_def book_cab_def select_meal_def process_payment_def

lemma lit_cat: "lit a @ lit b = lit (a @ b)" "lit a @ lit b @ c = lit (a @ b) @ c"
  by (simp_all add: lit_def)

lemma take_lit: "take n (lit s) = lit (take n s)"
  by (simp add: lit_def take_map)

lemma sublist_lit: "sublist a b \<Longrightarrow> sublist (lit a) (lit b)"
  unfolding lit_def by (rule map_mono_sublist)

lemma digit_char_is_digit: "d < 10 \<Longrightarrow> is_digit (digit_char d)"
proof -
  assume "d < 10"
  then have "d \<in> {0, 1, 2, 3, 4, 5, 6, 7, 8, 9}" by auto
  then show ?thesis by (auto simp: is_digit_def digit_char_def)
qed

lemma str_nat_digits: "list_all is_digit (str_nat n)"
proof (induction n rule: str_nat.induct)
  case (1 n)
  show ?case
  proof (cases "n < 10")
    case True
    then show ?thesis by (simp add: str_nat.simps [of n] digit_char_is_digit)
  next
    case False
    with 1 show ?thesis by (simp add: str_nat.simps [of n] digit_char_is_digit)
  qed
qed

lemma str_nat_length: "n < 10 ^ k \<Longrightarrow> 0 < k \<Longrightarrow> length (str_nat n) \<le> k"
proof (induction n arbitrary: k rule: str_nat.induct)
  case (1 n)
  show ?case
  proof (cases "n < 10")
    case True
    with 1(3) show ?thesis by (simp add: str_nat.simps [of n])
  next
    case False
    obtain j where k: "k = Suc j" using 1(3) by (cases k) auto
    from False 1(2) k have "0 < j" by (cases j) auto
    moreover from 1(2) k have "n div 10 < 10 ^ j"
      by (simp add: less_mult_imp_div_less mult.commute)
    ultimately have "length (str_nat (n div 10)) \<le> j" using 1(1) [OF False] by simp
    with False k show ?thesis by (simp add: str_nat.simps [of n])
  qed
qed

lemma zero_pad_digits: "list_all is_digit s \<Longrightarrow> list_all is_digit (zero_pad w s)"
proof -
  have "is_digit CHR ''0''" by (simp add: is_digit_def)
  then show "list_all is_digit s \<Longrightarrow> list_all is_digit (zero_pad w s)"
    by (auto simp: zero_pad_def list_all_iff)
qed

lemma zero_pad_length: "length s \<le> w \<Longrightarrow> length (zero_pad w s) = w"
  by (simp add: zero_pad_def)

lemma format_0d_nonneg:
  assumes "0 \<le> x" "x < 10 ^ w" "0 < w"
  shows "length (format_0d w x) = w \<and> list_all is_digit (format_0d w x)"
proof -
  from assms have "nat x < 10 ^ w" by (simp add: nat_less_iff)
  then have "length (str_nat (nat x)) \<le> w" using assms(3) by (rule str_nat_length)
  with assms(1) show ?thesis
    by (simp add: format_0d_def zero_pad_length zero_pad_digits str_nat_digits)
qed

lemma format_0d_mod:
  "length (format_0d 3 (x mod 1000)) = 3 \<and> list_all is_digit (format_0d 3 (x mod 1000))"
  "length (format_0d 4 (x mod 10000)) = 4 \<and> list_all is_digit (format_0d 4 (x mod 10000))"
  using format_0d_nonneg [of "x mod 1000" 3] format_0d_nonneg [of "x mod 10000" 4]
  by simp_all

lemma str_nat_length_lower: "10 ^ k \<le> n \<Longrightarrow> k < length (str_nat n)"
proof (induction n arbitrary: k rule: str_nat.induct)
  case (1 n)
  show ?case
  proof (cases "n < 10")
    case True
    have "k = 0"
    proof (rule ccontr)
      assume "k \<noteq> 0"
      then have "(10::nat) ^ 1 \<le> 10 ^ k" by (intro power_increasing) simp_all
      with 1(2) True show False by simp
    qed
    with True show ?thesis by (simp add: str_nat.simps [of n])
  next
    case False
    show ?thesis
    proof (cases k)
      case 0
      with False show ?thesis by (simp add: str_nat.simps [of n])
    next
      case (Suc j)
      with 1(2) have "10 ^ j \<le> n div 10" by simp
      then have "j < length (str_nat (n div 10))" using 1(1) [OF False] by simp
      with False Suc show ?thesis by (simp add: str_nat.simps [of n])
    qed
  qed
qed

lemma ten_le_limit: "(10::int) \<le> 10 ^ int_max_str_digits"
proof -
  have "(10::int) ^ 1 \<le> 10 ^ int_max_str_digits"
    by (rule power_increasing) (simp_all add: int_max_str_digits_def)
  then show ?thesis by simp
qed

lemma small_not_too_many: "\<bar>n\<bar> < 10 \<Longrightarrow> \<not> too_many_digits n"
  using ten_le_limit by (simp add: too_many_digits_def)

lemma str_int_examples: "str_int 1 = Inr ''1''" "str_int 2 = Inr ''2''"
  by (simp_all add: str_int_def small_not_too_many int_text_def str_nat.simps digit_char_def)

lemma upper_examples:
  "upper rt (lit ''NYC'') = lit ''NYC''" "upper rt (lit ''LAX'') = lit ''LAX''"
  "upper rt (lit ''Par'') = lit ''PAR''"
  by (simp_all add: upper_def is_ascii_def lit_def ascii_upper_def)

text \<open>The limit is a limit on the number of decimal digits, the sign not counted.\<close>

lemma too_many_digits_counts_digits:
  "too_many_digits n = (int_max_str_digits < length (str_nat (nat \<bar>n\<bar>)))"
proof
  assume "too_many_digits n"
  then have "10 ^ int_max_str_digits \<le> nat \<bar>n\<bar>"
    by (simp add: too_many_digits_def le_nat_iff)
  then show "int_max_str_digits < length (str_nat (nat \<bar>n\<bar>))"
    by (rule str_nat_length_lower)
next
  assume a: "int_max_str_digits < length (str_nat (nat \<bar>n\<bar>))"
  show "too_many_digits n"
  proof (rule ccontr)
    assume "\<not> too_many_digits n"
    then have "nat \<bar>n\<bar> < 10 ^ int_max_str_digits"
      by (simp add: too_many_digits_def nat_less_iff)
    then have "length (str_nat (nat \<bar>n\<bar>)) \<le> int_max_str_digits"
      by (rule str_nat_length) (simp add: int_max_str_digits_def)
    with a show False by simp
  qed
qed

lemma capitalize_3star: "capitalize rt (lit ''3-star'') = lit ''3-star''"
  by (simp add: capitalize_def is_ascii_def lit_def ascii_upper_def ascii_lower_def)

lemma book_flight_returned:
  "returned (book_flight rt origin destination departure_date return_date passenger_count
      class_type lg)
     = (if too_many_digits passenger_count then None
        else Some [(''flight_id'', PyStr (lit ''FL-'' @ upper rt (take 3 origin)
                                          @ upper rt (take 3 destination) @ lit ''123'')),
                   (''status'', PyStr (lit ''confirmed'')),
                   (''summary'', PyStr ((lit ''Flight booked from '' @ origin @ lit '' to ''
                      @ destination @ lit '' on '' @ departure_date @ lit '' for ''
                      @ lit (int_text passenger_count) @ lit '' passenger(s) in ''
                      @ or_default class_type (lit ''economy'') @ lit '' class. '')
                    @ (if return_date = None \<or> return_date = Some [] then []
                       else lit ''Return flight on '' @ the return_date @ lit ''. '')
                    @ lit ''Booking ID is ''
                    @ (lit ''FL-'' @ upper rt (take 3 origin) @ upper rt (take 3 destination)
                       @ lit ''123'')
                    @ lit ''.''))])"
  by (cases return_date) (simp_all add: book_flight_def Let_def str_int_def)

section \<open>The status of every result\<close>

text \<open>
  Claim C1, as stated, fails: a call does not return for every input. With a passenger
  count of 4301 digits (\<open>10\<^sup>4\<^sup>3\<^sup>0\<^sup>0\<close>), \<^verbatim>\<open>book_flight\<close> raises \<^verbatim>\<open>ValueError\<close> where it prints
  the count into the summary; \<^verbatim>\<open>book_hotel\<close> and \<^verbatim>\<open>book_cab\<close> print their count the same
  way.
\<close>

theorem status_counterexample:
  "invoke sample_runtime
     (BookFlight (lit ''NYC'') (lit ''LAX'') (lit ''2025-06-01'') None (10 ^ int_max_str_digits)
        (Some (lit ''economy''))) [] = Inl ValueError
   \<and> too_many_digits (10 ^ int_max_str_digits)"
  by (simp add: book_flight_def Let_def str_int_def too_many_digits_def)

text \<open>
  Claim C1, amended. A call of one of the five tools raises only when its integer
  argument has more than 4300 digits, and then it raises \<^verbatim>\<open>ValueError\<close>; the meal and
  payment tools never raise. Every other call, with any arguments of the declared types
  (empty strings, empty lists and negative numbers included) and any runtime, returns a
  record with exactly one entry under \<^verbatim>\<open>status\<close>, the string \<^verbatim>\<open>confirmed\<close>: no other
  status is ever produced.
\<close>

theorem status_confirmed_when_returned:
  "(case invoke rt c lg of
      Inl e \<Rightarrow> e = ValueError \<and> digit_limit_exceeded c
    | Inr (r, lg') \<Rightarrow>
        \<not> digit_limit_exceeded c
        \<and> map snd (filter (\<lambda>kv. fst kv = ''status'') r) = [PyStr (lit ''confirmed'')]
        \<and> str_field r ''status'' = Some (lit ''confirmed''))"
  by (cases c) (simp_all add: tool_defs Let_def str_field_def str_int_def)

text \<open>
  For instance, with empty strings and a negative passenger count the flight tool still
  answers, with an identifier that is its prefix and the fixed suffix.
\<close>

lemma book_flight_degenerate_arguments:
  "returned (book_flight rt [] [] [] (Some []) (- 3) (Some []) lg)
     = Some [(''flight_id'', PyStr (lit ''FL-123'')), (''status'', PyStr (lit ''confirmed'')),
        (''summary'', PyStr (lit ''Flight booked from  to  on  for -3 passenger(s) in economy class. Booking ID is FL-123.''))]"
  by (simp add: book_flight_returned small_not_too_many upper_def is_ascii_def int_text_def
      str_nat.simps digit_char_def lit_cat)

section \<open>The examples of the specification\<close>

lemma book_flight_example_result:
  "book_flight rt (lit ''NYC'') (lit ''LAX'') (lit ''2025-06-01'') None passenger_count_default
         class_type_default lg
     = Inr ([(''flight_id'', PyStr (lit ''FL-NYCLAX123'')), (''status'', PyStr (lit ''confirmed'')),
        (''summary'', PyStr (lit ''Flight booked from NYC to LAX on 2025-06-01 for 1 passenger(s) in economy class. Booking ID is FL-NYCLAX123.''))],
        lg @ [lit ''Flight booked from NYC to LAX on 2025-06-01 for 1 passenger(s) in economy class. Booking ID is FL-NYCLAX123.''])"
  by (simp add: book_flight_def Let_def passenger_count_default_def class_type_default_def
      take_lit upper_examples str_int_examples lit_cat)

text \<open>
  Claim C2. \<^verbatim>\<open>book_flight("NYC", "LAX", "2025-06-01")\<close> with the default passenger count
  and class: the flight id is \<^verbatim>\<open>FL-\<close>, the first three characters of the origin and of the
  destination in upper case, and \<^verbatim>\<open>123\<close>, that is \<^verbatim>\<open>FL-NYCLAX123\<close>; the summary contains
  \<^verbatim>\<open>NYC\<close>, \<^verbatim>\<open>LAX\<close>, \<^verbatim>\<open>2025-06-01\<close>, \<^verbatim>\<open>1 passenger(s)\<close>, \<^verbatim>\<open>economy class\<close> and the
  flight id.
\<close>

theorem book_flight_example:
  "\<exists>summary.
     book_flight rt (lit ''NYC'') (lit ''LAX'') (lit ''2025-06-01'') None passenger_count_default
       class_type_default lg
       = Inr ([(''flight_id'', PyStr (lit ''FL-'' @ upper rt (take 3 (lit ''NYC''))
                                      @ upper rt (take 3 (lit ''LAX'')) @ lit ''123'')),
               (''status'', PyStr (lit ''confirmed'')), (''summary'', PyStr summary)],
              lg @ [summary])
     \<and> lit ''FL-'' @ upper rt (take 3 (lit ''NYC'')) @ upper rt (take 3 (lit ''LAX'')) @ lit ''123''
         = lit ''FL-NYCLAX123''
     \<and> sublist (lit ''NYC'') summary \<and> sublist (lit ''LAX'') summary
     \<and> sublist (lit ''2025-06-01'') summary \<and> sublist (lit ''1 passenger(s)'') summary
     \<and> sublist (lit ''economy class'') summary \<and> sublist (lit ''FL-NYCLAX123'') summary"
proof -
  let ?s = "''Flight booked from NYC to LAX on 2025-06-01 for 1 passenger(s) in economy class. Booking ID is FL-NYCLAX123.''"
  have parts: "sublist ''NYC'' ?s" "sublist ''LAX'' ?s" "sublist ''2025-06-01'' ?s"
    "sublist ''1 passenger(s)'' ?s" "sublist ''economy class'' ?s"
    "sublist ''FL-NYCLAX123'' ?s"
    by code_simp+
  from parts [THEN sublist_lit] show ?thesis
    by (intro exI [of _ "lit ?s"])
       (simp add: book_flight_example_result take_lit upper_examples lit_cat)
qed

lemma book_hotel_example_result:
  "book_hotel rt (lit ''Paris'') (lit ''2025-06-01'') (lit ''2025-06-05'') 2 hotel_type_default lg
     = Inr ([(''hotel_id'', PyStr (lit ''HT-PAR567'')), (''status'', PyStr (lit ''confirmed'')),
        (''summary'', PyStr (lit ''3-star hotel booked in Paris from 2025-06-01 to 2025-06-05 for 2 guest(s). Booking ID is HT-PAR567.''))],
        lg @ [lit ''3-star hotel booked in Paris from 2025-06-01 to 2025-06-05 for 2 guest(s). Booking ID is HT-PAR567.''])"
  by (simp add: book_hotel_def Let_def hotel_type_default_def take_lit upper_examples
      str_int_examples capitalize_3star lit_cat)

text \<open>
  Claim C4. \<^verbatim>\<open>book_hotel("Paris", "2025-06-01", "2025-06-05", guests=2)\<close> with the default
  hotel type: the hotel id is \<^verbatim>\<open>HT-\<close>, the first three characters of the city in upper
  case, and \<^verbatim>\<open>567\<close>, that is \<^verbatim>\<open>HT-PAR567\<close>; the summary contains both dates and
  \<^verbatim>\<open>2 guest(s)\<close>.
\<close>

theorem book_hotel_example:
  "\<exists>summary.
     book_hotel rt (lit ''Paris'') (lit ''2025-06-01'') (lit ''2025-06-05'') 2 hotel_type_default lg
       = Inr ([(''hotel_id'', PyStr (lit ''HT-'' @ upper rt (take 3 (lit ''Paris'')) @ lit ''567'')),
               (''status'', PyStr (lit ''confirmed'')), (''summary'', PyStr summary)],
              lg @ [summary])
     \<and> lit ''HT-'' @ upper rt (take 3 (lit ''Paris'')) @ lit ''567'' = lit ''HT-PAR567''
     \<and> sublist (lit ''2025-06-01'') summary \<and> sublist (lit ''2025-06-05'') summary
     \<and> sublist (lit ''2 guest(s)'') summary"
proof -
  let ?s = "''3-star hotel booked in Paris from 2025-06-01 to 2025-06-05 for 2 guest(s). Booking ID is HT-PAR567.''"
  have parts: "sublist ''2025-06-01'' ?s" "sublist ''2025-06-05'' ?s" "sublist ''2 guest(s)'' ?s"
    by code_simp+
  from parts [THEN sublist_lit] show ?thesis
    by (intro exI [of _ "lit ?s"])
       (simp add: book_hotel_example_result take_lit upper_examples lit_cat)
qed

text \<open>
  Claim C5. \<^verbatim>\<open>process_payment(["FL-1", "HT-1"], "card", 100.0, "USD")\<close>: the summary
  lists the two booking ids joined by a comma and a space (\<^verbatim>\<open>FL-1, HT-1\<close>) and contains
  \<^verbatim>\<open>100.0 USD\<close>. The amount is any float that the runtime prints as \<^verbatim>\<open>100.0\<close>, which is
  how Python prints the float 100.0.
\<close>

theorem process_payment_example:
  assumes "float_str rt amount = ''100.0''"
  shows "\<exists>summary.
     str_field (fst (process_payment rt [lit ''FL-1'', lit ''HT-1''] (lit ''card'') amount
                       (lit ''USD'') None None lg)) ''summary'' = Some summary
     \<and> join (lit '', '') [lit ''FL-1'', lit ''HT-1''] = lit ''FL-1, HT-1''
     \<and> sublist (join (lit '', '') [lit ''FL-1'', lit ''HT-1'']) summary
     \<and> sublist (lit ''100.0 USD'') summary"
proof -
  let ?pid = "lit ''PY-'' @ lit (format_0d 4 (hash rt (str_list rt [lit ''FL-1'', lit ''HT-1'']) mod 10000))"
  let ?s = "lit ''Payment of '' @ lit ''100.0 USD''
            @ lit '' processed successfully via card for booking(s): ''
            @ lit ''FL-1, HT-1'' @ lit ''. Payment ID: '' @ ?pid @ lit ''.''"
  have j: "join (lit '', '') [lit ''FL-1'', lit ''HT-1''] = lit ''FL-1, HT-1''"
    by (simp add: lit_cat)
  have s: "str_field (fst (process_payment rt [lit ''FL-1'', lit ''HT-1''] (lit ''card'') amount
                       (lit ''USD'') None None lg)) ''summary'' = Some ?s"
    using assms by (simp add: process_payment_def Let_def str_field_def lit_def)
  have a: "sublist (lit ''FL-1, HT-1'') ?s"
    unfolding sublist_def
    by (rule exI [of _ "lit ''Payment of '' @ lit ''100.0 USD''
            @ lit '' processed successfully via card for booking(s): ''"],
        rule exI [of _ "lit ''. Payment ID: '' @ ?pid @ lit ''.''"]) simp
  have b: "sublist (lit ''100.0 USD'') ?s"
    unfolding sublist_def
    by (rule exI [of _ "lit ''Payment of ''"],
        rule exI [of _ "lit '' processed successfully via card for booking(s): ''
            @ lit ''FL-1, HT-1'' @ lit ''. Payment ID: '' @ ?pid @ lit ''.''"]) simp
  from a have a': "sublist (join (lit '', '') [lit ''FL-1'', lit ''HT-1'']) ?s"
    by (simp only: j)
  show ?thesis
    by (intro exI [of _ ?s] conjI s j a' b)
qed

theorem process_payment_example_witness:
  "float_str sample_runtime 100 = ''100.0''
   \<and> (\<exists>summary.
     str_field (fst (process_payment sample_runtime [lit ''FL-1'', lit ''HT-1''] (lit ''card'') 100
                       (lit ''USD'') None None [])) ''summary'' = Some summary
     \<and> join (lit '', '') [lit ''FL-1'', lit ''HT-1''] = lit ''FL-1, HT-1''
     \<and> sublist (join (lit '', '') [lit ''FL-1'', lit ''HT-1'']) summary
     \<and> sublist (lit ''100.0 USD'') summary)"
proof -
  have h: "float_str sample_runtime 100 = ''100.0''"
    by (simp add: sample_runtime_def whole_float_str_def int_text_def str_nat.simps digit_char_def)
  from h process_payment_example [OF h, of "[]"] show ?thesis
    by blast
qed

section \<open>Repeated calls and defaults\<close>


text \<open>
  Claim C9. Passing \<^verbatim>\<open>None\<close> for the optional style parameter gives the same outcome,
  and the same log line, as the declared default: \<^verbatim>\<open>economy\<close> for the class of a flight,
  \<^verbatim>\<open>3-star\<close> for the type of a hotel, \<^verbatim>\<open>standard\<close> for the type of a cab.
\<close>

theorem none_style_is_default:
  "book_flight rt origin destination departure_date return_date passenger_count None lg
     = book_flight rt origin destination departure_date return_date passenger_count
         class_type_default lg
   \<and> book_hotel rt city check_in_date check_out_date guests None lg
     = book_hotel rt city check_in_date check_out_date guests hotel_type_default lg
   \<and> book_cab rt city pickup_location dropoff_location pickup_time passengers None lg
     = book_cab rt city pickup_location dropoff_location pickup_time passengers cab_type_default lg"
  by (simp add: tool_defs class_type_default_def hotel_type_default_def cab_type_default_def
      lit_def)

section \<open>The return flight sentence\<close>

text \<open>
  Claim C10, as stated, fails in its "only if" half: the origin is copied into the
  summary as it is, so with the origin \<^verbatim>\<open>Return flight on . \<close> and an empty return date
  the summary contains the sentence \<^verbatim>\<open>Return flight on . \<close> although no return date was
  given.
\<close>

theorem return_sentence_counterexample:
  "returned (book_flight sample_runtime (lit ''Return flight on . '') (lit ''RUH'') (lit ''d'')
              (Some []) 1 (Some (lit ''economy'')) [])
     = Some [(''flight_id'', PyStr (lit ''FL-RETRUH123'')),
             (''status'', PyStr (lit ''confirmed'')),
             (''summary'', PyStr (lit ''Flight booked from Return flight on .  to RUH on d for 1 passenger(s) in economy class. Booking ID is FL-RETRUH123.''))]
   \<and> sublist (lit ''Return flight on '' @ [] @ lit ''. '')
        (lit ''Flight booked from Return flight on .  to RUH on d for 1 passenger(s) in economy class. Booking ID is FL-RETRUH123.'')
   \<and> \<not> truthy (Some [])"
proof -
  have u: "upper sample_runtime (lit ''Ret'') = lit ''RET''"
    "upper sample_runtime (lit ''RUH'') = lit ''RUH''"
    by (simp_all add: upper_def is_ascii_def lit_def ascii_upper_def)
  have t: "int_text 1 = ''1''"
    by (simp add: int_text_def str_nat.simps digit_char_def)
  have "sublist ''Return flight on . '' ''Flight booked from Return flight on .  to RUH on d for 1 passenger(s) in economy class. Booking ID is FL-RETRUH123.''"
    by code_simp
  from this [THEN sublist_lit]
  have s: "sublist (lit ''Return flight on '' @ [] @ lit ''. '')
        (lit ''Flight booked from Return flight on .  to RUH on d for 1 passenger(s) in economy class. Booking ID is FL-RETRUH123.'')"
    by (simp add: lit_cat)
  have r: "returned (book_flight sample_runtime (lit ''Return flight on . '') (lit ''RUH'') (lit ''d'')
              (Some []) 1 (Some (lit ''economy'')) [])
     = Some [(''flight_id'', PyStr (lit ''FL-RETRUH123'')),
             (''status'', PyStr (lit ''confirmed'')),
             (''summary'', PyStr (lit ''Flight booked from Return flight on .  to RUH on d for 1 passenger(s) in economy class. Booking ID is FL-RETRUH123.''))]"
    by (simp add: book_flight_returned small_not_too_many take_lit u t lit_cat)
  from r s show ?thesis by simp
qed

text \<open>
  Claim C10, amended. Whenever \<^verbatim>\<open>book_flight\<close> returns, its summary is an opening
  sentence, then the sentence \<^verbatim>\<open>Return flight on <return_date>. \<close> exactly when a return
  date is given and is not empty, then the booking id sentence; the opening sentence and
  the flight id are the same for every return date. So the summary contains the sentence
  whenever a non-empty return date is given, an empty return date gives the result of an
  omitted one, and the flight id does not depend on the return date.
\<close>

theorem return_sentence_structure:
  "\<exists>opening flight_id. \<forall>return_date.
     returned (book_flight rt origin destination departure_date return_date passenger_count
                 class_type lg)
       = (if too_many_digits passenger_count then None
          else Some [(''flight_id'', PyStr flight_id), (''status'', PyStr (lit ''confirmed'')),
                     (''summary'', PyStr (opening
                        @ (if return_date = None \<or> return_date = Some [] then []
                           else lit ''Return flight on '' @ the return_date @ lit ''. '')
                        @ lit ''Booking ID is '' @ flight_id @ lit ''.''))])
     \<and> (if truthy return_date \<and> \<not> too_many_digits passenger_count
        then \<exists>r summary.
               returned (book_flight rt origin destination departure_date return_date
                           passenger_count class_type lg) = Some r
               \<and> str_field r ''summary'' = Some summary
               \<and> sublist (lit ''Return flight on '' @ the return_date @ lit ''. '') summary
        else returned (book_flight rt origin destination departure_date return_date
                         passenger_count class_type lg)
             = returned (book_flight rt origin destination departure_date None
                           passenger_count class_type lg))
     \<and> book_flight rt origin destination departure_date (Some []) passenger_count class_type lg
       = book_flight rt origin destination departure_date None passenger_count class_type lg"
proof -
  let ?fid = "lit ''FL-'' @ upper rt (take 3 origin) @ upper rt (take 3 destination) @ lit ''123''"
  let ?opening = "lit ''Flight booked from '' @ origin @ lit '' to ''
                      @ destination @ lit '' on '' @ departure_date @ lit '' for ''
                      @ lit (int_text passenger_count) @ lit '' passenger(s) in ''
                      @ or_default class_type (lit ''economy'') @ lit '' class. ''"
  let ?ret = "\<lambda>return_date. returned (book_flight rt origin destination departure_date
                 return_date passenger_count class_type lg)"
  have a: "?ret return_date
       = (if too_many_digits passenger_count then None
          else Some [(''flight_id'', PyStr ?fid), (''status'', PyStr (lit ''confirmed'')),
                     (''summary'', PyStr (?opening
                        @ (if return_date = None \<or> return_date = Some [] then []
                           else lit ''Return flight on '' @ the return_date @ lit ''. '')
                        @ lit ''Booking ID is '' @ ?fid @ lit ''.''))])" for return_date
    by (rule book_flight_returned)
  have b: "(if truthy return_date \<and> \<not> too_many_digits passenger_count
        then \<exists>r summary. ?ret return_date = Some r
               \<and> str_field r ''summary'' = Some summary
               \<and> sublist (lit ''Return flight on '' @ the return_date @ lit ''. '') summary
        else ?ret return_date = ?ret None)" for return_date
  proof (cases "truthy return_date \<and> \<not> too_many_digits passenger_count")
    case True
    then obtain d where d: "return_date = Some d" "d \<noteq> []"
      by (cases return_date) auto
    have "sublist (lit ''Return flight on '' @ d @ lit ''. '')
            (?opening @ (lit ''Return flight on '' @ d @ lit ''. '')
              @ lit ''Booking ID is '' @ ?fid @ lit ''.'')"
      by (rule sublist_appendI)
    with True d show ?thesis
      by (simp add: a str_field_def)
  next
    case False
    then show ?thesis
      by (cases return_date) (auto simp: a)
  qed
  have c: "book_flight rt origin destination departure_date (Some []) passenger_count class_type lg
       = book_flight rt origin destination departure_date None passenger_count class_type lg"
    by (simp add: book_flight_def Let_def split: sum.splits)
  from a b c show ?thesis
    by (intro exI [of _ ?opening, OF exI [of _ ?fid]] allI conjI)
qed

section \<open>The shape of the identifiers\<close>

text \<open>
  Claim C6, as stated, fails. The flight id of the specification's own example is
  \<^verbatim>\<open>FL-NYCLAX123\<close>: what follows the prefix is neither input text (the \<^verbatim>\<open>3\<close> occurs in no
  argument) nor a padded number. And \<^verbatim>\<open>select_meal\<close> puts the last three characters of
  the flight id into its identifier as they are, in front of the hash value: for the
  flight id \<^verbatim>\<open>abc\<close> the identifier holds a lower-case \<^verbatim>\<open>a\<close>, which is neither a digit
  nor a character of the upper-cased arguments.
\<close>

theorem identifier_shape_counterexample:
  "returned_id (BookFlight (lit ''NYC'') (lit ''LAX'') (lit ''2025-06-01'') None 1
                  (Some (lit ''economy'')))
     (invoke sample_runtime
        (BookFlight (lit ''NYC'') (lit ''LAX'') (lit ''2025-06-01'') None 1
           (Some (lit ''economy''))) [])
     = Some (lit ''FL-'' @ lit ''NYCLAX123'')
   \<and> \<not> made_of_upper_text sample_runtime
         [lit ''NYC'', lit ''LAX'', lit ''2025-06-01'', lit ''economy''] (lit ''NYCLAX123'')
   \<and> \<not> padded_number (lit ''NYCLAX123'')
   \<and> str_field (fst (select_meal sample_runtime (lit ''abc'') (lit ''veg'') None None None []))
         ''meal_preference_id'' = Some (lit ''MP-'' @ lit ''abc003'')
   \<and> of_char CHR ''a'' \<in> set (lit ''abc003'')
   \<and> of_char CHR ''a'' \<notin> set (lit ''0123456789'')
   \<and> of_char CHR ''a'' \<notin> set (upper sample_runtime (concat [lit ''abc'', lit ''veg'']))"
proof -
  have "returned_id (BookFlight (lit ''NYC'') (lit ''LAX'') (lit ''2025-06-01'') None 1
                  (Some (lit ''economy'')))
     (invoke sample_runtime
        (BookFlight (lit ''NYC'') (lit ''LAX'') (lit ''2025-06-01'') None 1
           (Some (lit ''economy''))) [])
     = Some (lit ''FL-'' @ lit ''NYCLAX123'')"
    by (simp add: returned_id_def book_flight_returned small_not_too_many str_field_def
        take_lit upper_examples lit_cat)
  moreover have "\<not> made_of_upper_text sample_runtime
         [lit ''NYC'', lit ''LAX'', lit ''2025-06-01'', lit ''economy''] (lit ''NYCLAX123'')"
    by (simp add: made_of_upper_text_def upper_def is_ascii_def lit_def ascii_upper_def)
  moreover have "\<not> padded_number (lit ''NYCLAX123'')"
    by (simp add: padded_number_def lit_def)
  moreover have "format_0d 3 (hash sample_runtime (lit ''veg'') mod 1000) = ''003''"
    by (simp add: sample_runtime_def length_hash_def lit_def format_0d_def zero_pad_def
        str_nat.simps digit_char_def numeral_eq_Suc)
  then have "str_field (fst (select_meal sample_runtime (lit ''abc'') (lit ''veg'') None None
                 None [])) ''meal_preference_id'' = Some (lit ''MP-'' @ lit ''abc003'')"
    by (simp add: select_meal_def Let_def str_field_def last_chars_def lit_def)
  moreover have "of_char CHR ''a'' \<in> set (lit ''abc003'')"
    "of_char CHR ''a'' \<notin> set (lit ''0123456789'')"
    by (simp_all add: lit_def)
  moreover have "of_char CHR ''a'' \<notin> set (upper sample_runtime (concat [lit ''abc'', lit ''veg'']))"
    by (simp add: upper_def is_ascii_def lit_def ascii_upper_def)
  ultimately show ?thesis by blast
qed

text \<open>
  Claim C6, amended. Every identifier a call returns is the prefix of its tool followed
  by: for a flight, \<^verbatim>\<open>origin[:3].upper()\<close>, \<^verbatim>\<open>destination[:3].upper()\<close> and the fixed text
  \<^verbatim>\<open>123\<close>; for a hotel, \<^verbatim>\<open>city[:3].upper()\<close> and \<^verbatim>\<open>567\<close>; for a cab,
  \<^verbatim>\<open>city[:3].upper()\<close> and the last four characters of the pickup time without colons;
  for a meal, the last three characters of the flight id as they are and the hash of the
  meal type modulo 1000 as three digits; for a payment, the hash of the text of the
  booking ids modulo 10000 as four digits. In particular every identifier starts with its
  prefix. (Upper-casing follows Python: beyond ASCII it may change the number of
  characters.)
\<close>

theorem identifier_shape:
  "returned_id c (invoke rt c lg)
     = (if digit_limit_exceeded c then None
        else Some (id_prefix c @
          (case c of
             BookFlight origin destination _ _ _ _ \<Rightarrow>
               upper rt (take 3 origin) @ upper rt (take 3 destination) @ lit ''123''
           | BookHotel city _ _ _ _ \<Rightarrow> upper rt (take 3 city) @ lit ''567''
           | BookCab city _ _ pickup_time _ _ \<Rightarrow>
               upper rt (take 3 city) @ remove_char (of_char CHR '':'') (last_chars 4 pickup_time)
           | SelectMeal flight_id meal_type _ _ _ \<Rightarrow>
               last_chars 3 flight_id @ lit (format_0d 3 (hash rt meal_type mod 1000))
           | ProcessPayment booking_ids _ _ _ _ _ \<Rightarrow>
               lit (format_0d 4 (hash rt (str_list rt booking_ids) mod 10000)))))
   \<and> (case returned_id c (invoke rt c lg) of
         None \<Rightarrow> digit_limit_exceeded c
       | Some ident \<Rightarrow> prefix (id_prefix c) ident)
   \<and> length (format_0d 3 (hash rt meal_type' mod 1000)) = 3
   \<and> list_all is_digit (format_0d 3 (hash rt meal_type' mod 1000))
   \<and> length (format_0d 4 (hash rt ids_text mod 10000)) = 4
   \<and> list_all is_digit (format_0d 4 (hash rt ids_text mod 10000))
   \<and> length (remove_char (of_char CHR '':'') (last_chars 4 text)) \<le> 4
   \<and> length (last_chars 3 text) \<le> 3"
proof -
  have shape: "returned_id c (invoke rt c lg)
     = (if digit_limit_exceeded c then None
        else Some (id_prefix c @
          (case c of
             BookFlight origin destination _ _ _ _ \<Rightarrow>
               upper rt (take 3 origin) @ upper rt (take 3 destination) @ lit ''123''
           | BookHotel city _ _ _ _ \<Rightarrow> upper rt (take 3 city) @ lit ''567''
           | BookCab city _ _ pickup_time _ _ \<Rightarrow>
               upper rt (take 3 city) @ remove_char (of_char CHR '':'') (last_chars 4 pickup_time)
           | SelectMeal flight_id meal_type _ _ _ \<Rightarrow>
               last_chars 3 flight_id @ lit (format_0d 3 (hash rt meal_type mod 1000))
           | ProcessPayment booking_ids _ _ _ _ _ \<Rightarrow>
               lit (format_0d 4 (hash rt (str_list rt booking_ids) mod 10000)))))"
    by (cases c) (simp_all add: returned_id_def tool_defs Let_def str_field_def str_int_def)
  then have pre: "(case returned_id c (invoke rt c lg) of
         None \<Rightarrow> digit_limit_exceeded c
       | Some ident \<Rightarrow> prefix (id_prefix c) ident)"
    by simp
  have "length (remove_char (of_char CHR '':'') (last_chars 4 text)) \<le> length (last_chars 4 text)"
    unfolding remove_char_def by (rule length_filter_le)
  then have cab: "length (remove_char (of_char CHR '':'') (last_chars 4 text)) \<le> 4"
    by (simp add: last_chars_def)
  have lens: "length (last_chars 3 text) \<le> 3"
    by (simp add: last_chars_def)
  from shape pre cab lens format_0d_mod [of "hash rt meal_type'"]
    format_0d_mod [of "hash rt ids_text"]
  show ?thesis by blast
qed

section \<open>The fields of a result\<close>

text \<open>
  Claim C7, as stated, fails: the result of \<^verbatim>\<open>book_flight\<close> has the three fields
  \<^verbatim>\<open>flight_id\<close>, \<^verbatim>\<open>status\<close> and \<^verbatim>\<open>summary\<close> and nothing else, so it echoes no input
  field.
\<close>

theorem echoed_fields_counterexample:
  "map_option (echoed_fields (BookFlight (lit ''NYC'') (lit ''LAX'') (lit ''2025-06-01'') None 1
                                (Some (lit ''economy''))))
     (returned (invoke sample_runtime
                  (BookFlight (lit ''NYC'') (lit ''LAX'') (lit ''2025-06-01'') None 1
                     (Some (lit ''economy''))) [])) = Some []
   \<and> map_option (map fst)
       (returned (book_flight sample_runtime (lit ''NYC'') (lit ''LAX'') (lit ''2025-06-01'') None 1
                    (Some (lit ''economy'')) []))
     = Some [''flight_id'', ''status'', ''summary'']"
  by (simp add: echoed_fields_def book_flight_returned small_not_too_many)

text \<open>
  Claim C7, amended. Every result a call returns holds the generated identifier, the
  status \<^verbatim>\<open>confirmed\<close> and the summary. Besides these, \<^verbatim>\<open>select_meal\<close> echoes the flight
  id, the meal type, the dietary restrictions and the special requests, and
  \<^verbatim>\<open>process_payment\<close> echoes the amount, the currency and the booking ids; \<^verbatim>\<open>book_flight\<close>,
  \<^verbatim>\<open>book_hotel\<close> and \<^verbatim>\<open>book_cab\<close> echo nothing (their arguments appear in the summary
  only).
\<close>

theorem echoed_fields_by_tool:
  "map_option (echoed_fields c) (returned (invoke rt c lg))
     = (if digit_limit_exceeded c then None
        else Some
          (case c of
             BookFlight _ _ _ _ _ _ \<Rightarrow> []
           | BookHotel _ _ _ _ _ \<Rightarrow> []
           | BookCab _ _ _ _ _ _ \<Rightarrow> []
           | SelectMeal flight_id meal_type dietary_restrictions special_requests _ \<Rightarrow>
               [(''flight_id'', PyStr flight_id), (''meal_type'', PyStr meal_type),
                (''dietary_restrictions'', opt_val dietary_restrictions),
                (''special_requests'', opt_val special_requests)]
           | ProcessPayment booking_ids _ amount currency _ _ \<Rightarrow>
               [(''amount'', PyFloat amount), (''currency'', PyStr currency),
                (''booking_ids'', PyStrList booking_ids)]))
   \<and> (case returned (invoke rt c lg) of
         None \<Rightarrow> digit_limit_exceeded c
       | Some r \<Rightarrow>
           str_field r (id_key c) \<noteq> None
           \<and> str_field r ''status'' = Some (lit ''confirmed'')
           \<and> str_field r ''summary'' \<noteq> None
           \<and> length r = 3 + length (echoed_fields c r))"
  by (cases c) (simp_all add: echoed_fields_def tool_defs Let_def str_field_def str_int_def)

section \<open>The time tool returns the clock reading in ISO 8601 form\<close>

lemma matches_append:
  "length p = length s \<Longrightarrow> matches (p @ q) (s @ r) = (matches p s \<and> matches q r)"
proof (induction p arbitrary: s)
  case Nil
  then show ?case by simp
next
  case (Cons a p)
  then show ?case by (cases s) auto
qed

lemma matches_digits:
  "matches (replicate n CHR ''D'') s = (length s = n \<and> list_all is_digit s)"
proof (induction n arbitrary: s)
  case 0
  then show ?case by (cases s) simp_all
next
  case (Suc n)
  then show ?case by (cases s) auto
qed

lemma format_0d_matches:
  assumes "n < 10 ^ w" "0 < w"
  shows "matches (replicate w CHR ''D'') (format_0d w (int n))"
    and "length (format_0d w (int n)) = w"
proof -
  from assms(1) have "int n < int (10 ^ w)" by (simp only: of_nat_less_iff)
  then have "int n < 10 ^ w" by simp
  with format_0d_nonneg [of "int n" w] assms(2)
  have "length (format_0d w (int n)) = w \<and> list_all is_digit (format_0d w (int n))" by simp
  then show "matches (replicate w CHR ''D'') (format_0d w (int n))"
    and "length (format_0d w (int n)) = w"
    by (simp_all add: matches_digits)
qed

lemma isoformat_seconds_shape:
  assumes "valid_datetime t"
  shows "matches ''DDDD-DD-DDTDD:DD:DD''
     (format_0d 4 (int (year t)) @ ''-'' @ format_0d 2 (int (month t)) @ ''-''
     @ format_0d 2 (int (day t)) @ ''T'' @ format_0d 2 (int (hour t)) @ '':''
     @ format_0d 2 (int (minute t)) @ '':'' @ format_0d 2 (int (second t)))"
    and "length (format_0d 4 (int (year t)) @ ''-'' @ format_0d 2 (int (month t)) @ ''-''
     @ format_0d 2 (int (day t)) @ ''T'' @ format_0d 2 (int (hour t)) @ '':''
     @ format_0d 2 (int (minute t)) @ '':'' @ format_0d 2 (int (second t))) = 19"
proof -
  from assms have b: "year t < 10 ^ 4" "month t < 10 ^ 2" "day t < 10 ^ 2" "hour t < 10 ^ 2"
    "minute t < 10 ^ 2" "second t < 10 ^ 2"
    by (simp_all add: valid_datetime_def)
  note m = b [THEN format_0d_matches(1)] and l = b [THEN format_0d_matches(2)]
  have p: "''DDDD-DD-DDTDD:DD:DD'' = replicate 4 CHR ''D'' @ ''-'' @ replicate 2 CHR ''D'' @ ''-''
     @ replicate 2 CHR ''D'' @ ''T'' @ replicate 2 CHR ''D'' @ '':'' @ replicate 2 CHR ''D''
     @ '':'' @ replicate 2 CHR ''D''"
    by (simp add: numeral_eq_Suc)
  show "matches ''DDDD-DD-DDTDD:DD:DD''
     (format_0d 4 (int (year t)) @ ''-'' @ format_0d 2 (int (month t)) @ ''-''
     @ format_0d 2 (int (day t)) @ ''T'' @ format_0d 2 (int (hour t)) @ '':''
     @ format_0d 2 (int (minute t)) @ '':'' @ format_0d 2 (int (second t)))"
    unfolding p using m l by (simp add: matches_append)
  show "length (format_0d 4 (int (year t)) @ ''-'' @ format_0d 2 (int (month t)) @ ''-''
     @ format_0d 2 (int (day t)) @ ''T'' @ format_0d 2 (int (hour t)) @ '':''
     @ format_0d 2 (int (minute t)) @ '':'' @ format_0d 2 (int (second t))) = 19"
    using l by simp
qed

lemma digit_val_digit_char: "d < 10 \<Longrightarrow> digit_val (digit_char d) = d"
proof -
  assume "d < 10"
  then have "d \<in> {0, 1, 2, 3, 4, 5, 6, 7, 8, 9}" by auto
  then show ?thesis by (auto simp: digit_val_def digit_char_def)
qed

lemma nat_of_digits_snoc: "nat_of_digits (s @ [c]) = 10 * nat_of_digits s + digit_val c"
  by (simp add: nat_of_digits_def)

lemma nat_of_digits_str_nat: "nat_of_digits (str_nat n) = n"
proof (induction n rule: str_nat.induct)
  case (1 n)
  show ?case
  proof (cases "n < 10")
    case True
    then show ?thesis
      by (simp add: str_nat.simps [of n] nat_of_digits_def digit_val_digit_char)
  next
    case False
    with 1 show ?thesis
      by (simp add: str_nat.simps [of n] nat_of_digits_snoc digit_val_digit_char)
  qed
qed

lemma nat_of_digits_zeros: "nat_of_digits (replicate k CHR ''0'' @ s) = nat_of_digits s"
proof -
  have z: "digit_val CHR ''0'' = 0" by (simp add: digit_val_def)
  have "nat_of_digits (replicate k CHR ''0'') = 0"
  proof (induction k)
    case 0
    show ?case by (simp add: nat_of_digits_def)
  next
    case (Suc k)
    have "replicate (Suc k) CHR ''0'' = replicate k CHR ''0'' @ ''0''"
      by (simp add: replicate_append_same)
    with Suc z show ?case by (simp add: nat_of_digits_snoc del: replicate_Suc)
  qed
  then show ?thesis by (simp add: nat_of_digits_def)
qed

lemma nat_of_digits_format_0d: "nat_of_digits (format_0d w (int n)) = n"
  by (simp add: format_0d_def zero_pad_def nat_of_digits_zeros nat_of_digits_str_nat)

lemma fromisoformat_fields:
  assumes "length y = 4" "length m = 2" "length d = 2" "length h = 2" "length mi = 2"
    "length s = 2"
  shows "fromisoformat (y @ ''-'' @ m @ ''-'' @ d @ ''T'' @ h @ '':'' @ mi @ '':'' @ s @ f)
    = \<lparr>year = nat_of_digits y, month = nat_of_digits m, day = nat_of_digits d,
       hour = nat_of_digits h, minute = nat_of_digits mi, second = nat_of_digits s,
       microsecond = nat_of_digits (drop 1 f)\<rparr>"
  using assms by (simp add: fromisoformat_def)

lemma fromisoformat_isoformat:
  assumes "valid_datetime t"
  shows "fromisoformat (isoformat t) = t"
proof -
  from assms have b: "year t < 10 ^ 4" "month t < 10 ^ 2" "day t < 10 ^ 2" "hour t < 10 ^ 2"
    "minute t < 10 ^ 2" "second t < 10 ^ 2"
    by (simp_all add: valid_datetime_def)
  note l = b [THEN format_0d_matches(2), simplified]
  have f: "nat_of_digits (drop 1
      (if microsecond t \<noteq> 0 then ''.'' @ format_0d 6 (int (microsecond t)) else []))
      = microsecond t"
    by (simp add: nat_of_digits_format_0d) (simp add: nat_of_digits_def)
  have "fromisoformat (isoformat t)
    = \<lparr>year = year t, month = month t, day = day t, hour = hour t, minute = minute t,
       second = second t, microsecond = microsecond t\<rparr>"
    unfolding isoformat_def
    by (subst fromisoformat_fields) (simp_all only: l f nat_of_digits_format_0d)
  then show ?thesis by simp
qed

lemma format_0d_examples:
  "format_0d 4 2025 = ''2025''" "format_0d 2 6 = ''06''" "format_0d 2 1 = ''01''"
  "format_0d 2 9 = ''09''" "format_0d 2 30 = ''30''" "format_0d 2 0 = ''00''"
  "format_0d 6 250000 = ''250000''"
  by (simp_all add: format_0d_def zero_pad_def str_nat.simps digit_char_def)

lemma isoformat_sample_time: "isoformat sample_time = ''2025-06-01T09:30:00.250000''"
  by (simp add: isoformat_def sample_time_def format_0d_examples)

text \<open>
  Claim C8. Given any clock reading, \<^verbatim>\<open>current_time\<close> (the same code in the Saudia and the
  Lufthansa agent) returns its \<^verbatim>\<open>isoformat()\<close> text: it has the ISO 8601 layout
  \<^verbatim>\<open>YYYY-MM-DDTHH:MM:SS\<close>, with \<^verbatim>\<open>.ffffff\<close> added when the microseconds are not zero, and
  the reading can be read back from it, field by field. The function is total: it has
  no error value, and it returns for every reading.
\<close>

theorem current_time_iso8601:
  assumes "valid_datetime now"
  shows "fst (current_time now lg) = isoformat now
    \<and> iso8601_text (fst (current_time now lg))
    \<and> length (fst (current_time now lg)) = (if microsecond now = 0 then 19 else 26)
    \<and> fromisoformat (fst (current_time now lg)) = now"
proof -
  let ?sec = "format_0d 4 (int (year now)) @ ''-'' @ format_0d 2 (int (month now)) @ ''-''
     @ format_0d 2 (int (day now)) @ ''T'' @ format_0d 2 (int (hour now)) @ '':''
     @ format_0d 2 (int (minute now)) @ '':'' @ format_0d 2 (int (second now))"
  let ?frac = "(if microsecond now \<noteq> 0 then ''.'' @ format_0d 6 (int (microsecond now)) else [])"
  have iso: "isoformat now = ?sec @ ?frac"
    by (simp add: isoformat_def)
  note sec = isoformat_seconds_shape [OF assms]
  from assms have "microsecond now < 10 ^ 6" by (simp add: valid_datetime_def)
  note us = format_0d_matches [OF this]
  have len: "length (isoformat now) = (if microsecond now = 0 then 19 else 26)"
    unfolding iso using sec(2) us(2) by simp
  have p: "''DDDD-DD-DDTDD:DD:DD.DDDDDD'' = ''DDDD-DD-DDTDD:DD:DD'' @ ''.'' @ replicate 6 CHR ''D''"
    by (simp add: numeral_eq_Suc)
  have shape: "iso8601_text (isoformat now)"
  proof (cases "microsecond now = 0")
    case True
    with sec(1) show ?thesis by (simp add: iso iso8601_text_def)
  next
    case False
    have "matches (''DDDD-DD-DDTDD:DD:DD'' @ ''.'' @ replicate 6 CHR ''D'')
            (?sec @ ''.'' @ format_0d 6 (int (microsecond now)))"
      using sec us by (subst matches_append) simp_all
    with False show ?thesis
      unfolding iso iso8601_text_def p by simp
  qed
  from len shape fromisoformat_isoformat [OF assms] show ?thesis
    by (simp add: current_time_def)
qed

theorem current_time_iso8601_witness:
  "valid_datetime sample_time
   \<and> fst (current_time sample_time []) = ''2025-06-01T09:30:00.250000''
   \<and> fst (current_time sample_time []) = isoformat sample_time
   \<and> iso8601_text (fst (current_time sample_time []))
   \<and> length (fst (current_time sample_time []))
       = (if microsecond sample_time = 0 then 19 else 26)
   \<and> fromisoformat (fst (current_time sample_time [])) = sample_time"
proof -
  have v: "valid_datetime sample_time"
    by (simp add: valid_datetime_def sample_time_def)
  have c: "fst (current_time sample_time []) = ''2025-06-01T09:30:00.250000''"
    by (simp add: current_time_def isoformat_sample_time)
  from v c current_time_iso8601 [OF v, of "[]"] show ?thesis
    by blast
qed

end
